theory Spec2Isabelle
  imports Complex_Main
begin

section \<open>The pixel manager of \<open>src/three/pixel-manager.js\<close>\<close>

text \<open>
  A shallow embedding of the class \<open>PixelManager\<close>. JavaScript numbers are idealised as
  exact reals (no rounding, no overflow to infinity); the one non-number that the code can
  produce from well-typed inputs, \<open>NaN\<close>, is kept where it can arise: \<open>parseInt\<close> of a
  character that is no hexadecimal digit, \<open>%\<close> by zero, and a write of \<open>undefined\<close>
  into a typed array. A thrown \<open>TypeError\<close> (a property read on \<open>undefined\<close>) is the left
  summand of a result. A quotient is the code's where its divisor is not zero (JavaScript
  gives an infinity or \<open>NaN\<close> there); the theorems that rest on one say so.
\<close>

subsection \<open>Constants\<close>

definition PIXEL_SIZE :: real where
  "PIXEL_SIZE = 10"

definition MAX_PIXEL_SIZE_PX :: real where
  "MAX_PIXEL_SIZE_PX = 128"

definition N_GROUPS :: int where
  "N_GROUPS = 3"

definition MAGIC_NUMBER :: nat where
  "MAGIC_NUMBER = 551"

definition centerRow :: int where
  "centerRow = 132"

definition centerCol :: int where
  "centerCol = 76"

subsection \<open>JavaScript primitives used by the class\<close>

datatype js_error = TypeError

text \<open>\<open>parseInt(digit, 16)\<close> on a one-character string; \<open>None\<close> is \<open>NaN\<close>.\<close>

definition parseInt16 :: "char \<Rightarrow> nat option" where
  "parseInt16 ch =
     (let n = (of_char ch :: nat) in
      if 48 \<le> n \<and> n \<le> 57 then Some (n - 48)
      else if 97 \<le> n \<and> n \<le> 102 then Some (n - 87)
      else if 65 \<le> n \<and> n \<le> 70 then Some (n - 55)
      else None)"

text \<open>\<open>ToInt32\<close>: the operand of a bitwise operator, wrapped into the signed 32-bit range.\<close>

definition ToInt32 :: "int \<Rightarrow> int" where
  "ToInt32 v = (let k = v mod 2 ^ 32 in if 2 ^ 31 \<le> k then k - 2 ^ 32 else k)"

text \<open>\<open>v >> n\<close>: sign-propagating shift of \<open>ToInt32 v\<close> by the low five bits of \<open>n\<close>.\<close>

definition js_shr :: "int \<Rightarrow> nat \<Rightarrow> int" where
  "js_shr v n = ToInt32 v div 2 ^ (n mod 32)"

text \<open>\<open>a % b\<close> on integers: the remainder takes the sign of the dividend; \<open>None\<close> is
  the \<open>NaN\<close> of a zero divisor.\<close>

definition js_rem :: "int \<Rightarrow> int \<Rightarrow> int option" where
  "js_rem a b = (if b = 0 then None else Some (sgn a * (\<bar>a\<bar> mod \<bar>b\<bar>)))"

subsection \<open>Group assignment\<close>

text \<open>\<open>getNGroups\<close>: more groups for white (\<open>colorIndex === 0\<close>); \<open>NaN * 1 === 0\<close> is false.\<close>

definition getNGroups :: "nat option \<Rightarrow> int" where
  "getNGroups colorIndex = (if colorIndex = Some 0 then N_GROUPS * 3 else N_GROUPS)"

definition calc :: "nat \<Rightarrow> nat \<Rightarrow> int" where
  "calc rowIndex colIndex = int (rowIndex + colIndex + rowIndex * rowIndex * colIndex)"

definition groupNumber :: "nat option \<Rightarrow> nat \<Rightarrow> nat \<Rightarrow> int option" where
  "groupNumber colorIndex rowIndex colIndex =
     js_rem (js_shr (calc rowIndex colIndex) MAGIC_NUMBER) (getNGroups colorIndex - 1)"

subsection \<open>Batch builder\<close>

record vertex =
  vertex_x :: real
  vertex_y :: real
  vertex_z :: real

datatype Face3 = Face3 nat nat nat

record plane_geometry =
  vertices :: "vertex list"
  faces :: "Face3 list"

text \<open>
  \<open>new THREE.PlaneGeometry(width, height)\<close> of the three.js library (one segment each
  way): four corners, numbered row by row from the top left, and the two triangles
  (0, 2, 1) and (2, 3, 1).
\<close>

definition PlaneGeometry :: "real \<Rightarrow> real \<Rightarrow> plane_geometry" where
  "PlaneGeometry width height =
     \<lparr>vertices =
        [\<lparr>vertex_x = - width / 2, vertex_y = height / 2, vertex_z = 0\<rparr>,
         \<lparr>vertex_x = width / 2, vertex_y = height / 2, vertex_z = 0\<rparr>,
         \<lparr>vertex_x = - width / 2, vertex_y = - height / 2, vertex_z = 0\<rparr>,
         \<lparr>vertex_x = width / 2, vertex_y = - height / 2, vertex_z = 0\<rparr>],
      faces = [Face3 0 2 1, Face3 2 3 1]\<rparr>"

definition translate :: "plane_geometry \<Rightarrow> real \<Rightarrow> real \<Rightarrow> real \<Rightarrow> plane_geometry" where
  "translate geometry dx dy dz =
     geometry\<lparr>vertices :=
       map (\<lambda>v. \<lparr>vertex_x = vertex_x v + dx, vertex_y = vertex_y v + dy,
                  vertex_z = vertex_z v + dz\<rparr>) (vertices geometry)\<rparr>"

text \<open>One entry of \<open>this.bufferGeometries[colorIndex]\<close>: three growing arrays.\<close>

record bufferGeometry =
  positions :: "real list"
  centers :: "real list"
  indices :: "nat list"

definition emptyBufferGeometry :: bufferGeometry where
  "emptyBufferGeometry = \<lparr>positions = [], centers = [], indices = []\<rparr>"

record camera =
  fov :: real
  camera_z :: real

text \<open>
  A mesh of \<open>this.pixelGroups\<close>: its three attribute arrays (typed arrays, so an element
  may be \<open>NaN\<close>), the dirty flag of the position attribute, the uniforms and the z
  coordinate of the mesh position. The colour uniform is kept as the palette index it is
  looked up with.
\<close>

datatype f32 = Num real | NaN

record pixelGroup =
  position :: "f32 list"
  center :: "f32 list"
  vertexIndex :: "nat list"
  position_needsUpdate :: bool
  color :: nat
  size_value :: real
  size_needsUpdate :: bool
  depthCompensation :: real
  position_z :: real

record pixel_manager =
  nRows :: nat
  nCols :: nat
  bufferGeometries :: "bufferGeometry list list"
  pixelGroups :: "pixelGroup list"
  camera :: camera
  pixelSize :: real

text \<open>
  \<open>getBufferGeometry\<close> returns a reference to a bucket, here its two indices:
  \<open>this.bufferGeometries[colorIndex]\<close> must be an array (else the second subscript
  throws), and the second subscript gives \<open>undefined\<close> (\<open>None\<close>) out of range.
\<close>

definition getBufferGeometry ::
    "pixel_manager \<Rightarrow> nat option \<Rightarrow> int option \<Rightarrow> js_error + (nat \<times> nat) option" where
  "getBufferGeometry pm colorIndex groupIndex =
     (case colorIndex of
        None \<Rightarrow> Inl TypeError
      | Some ci \<Rightarrow>
          if ci < length (bufferGeometries pm) then
            Inr (case groupIndex of
                   None \<Rightarrow> None
                 | Some g \<Rightarrow>
                     if 0 \<le> g \<and> nat g < length (bufferGeometries pm ! ci)
                     then Some (ci, nat g) else None)
          else Inl TypeError)"

text \<open>
  The body of \<open>geometry.faces.forEach\<close> for one face. The faces of a plane geometry
  index its own four vertices.
\<close>

fun addFace :: "plane_geometry \<Rightarrow> vertex \<Rightarrow> bufferGeometry \<Rightarrow> Face3 \<Rightarrow> bufferGeometry" where
  "addFace geometry v bg (Face3 a b c) =
     (let vertexA = vertices geometry ! a;
          vertexB = vertices geometry ! b;
          vertexC = vertices geometry ! c
      in \<lparr>positions = positions bg
             @ [vertex_x vertexA, vertex_y vertexA, vertex_z vertexA]
             @ [vertex_x vertexB, vertex_y vertexB, vertex_z vertexB]
             @ [vertex_x vertexC, vertex_y vertexC, vertex_z vertexC],
           centers = centers bg
             @ [vertex_x v, vertex_y v, vertex_z v]
             @ [vertex_x v, vertex_y v, vertex_z v]
             @ [vertex_x v, vertex_y v, vertex_z v],
           indices = indices bg @ [a] @ [b] @ [c]\<rparr>)"

fun forEachFace :: "plane_geometry \<Rightarrow> vertex \<Rightarrow> bufferGeometry \<Rightarrow> Face3 list \<Rightarrow> bufferGeometry" where
  "forEachFace geometry v bg [] = bg"
| "forEachFace geometry v bg (face # rest) = forEachFace geometry v (addFace geometry v bg face) rest"

definition updateBucket ::
    "(bufferGeometry \<Rightarrow> bufferGeometry) \<Rightarrow> nat \<Rightarrow> nat \<Rightarrow> bufferGeometry list list
       \<Rightarrow> bufferGeometry list list" where
  "updateBucket f i j bgs = bgs[i := (bgs ! i)[j := f (bgs ! i ! j)]]"

text \<open>
  The quad of one cell appended to a bucket: the plane of side \<open>this.pixelSize\<close>,
  translated to the cell's anchor, face by face.
\<close>

definition emitQuad :: "pixel_manager \<Rightarrow> vertex \<Rightarrow> bufferGeometry \<Rightarrow> bufferGeometry" where
  "emitQuad pm v bg =
     (let geometry = translate (PlaneGeometry (pixelSize pm) (pixelSize pm))
                       (vertex_x v) (vertex_y v) (vertex_z v)
      in forEachFace geometry v bg (faces geometry))"

text \<open>
  \<open>addColorVertex\<close>. The bucket chosen by the hash is looked up first (and that lookup
  may throw), then the centre cell is redirected to bucket \<open>[0, 0]\<close>. The geometry always
  has two faces, so an \<open>undefined\<close> bucket throws at the first \<open>push\<close>.
\<close>

definition addColorVertex ::
    "pixel_manager \<Rightarrow> nat option \<Rightarrow> nat \<Rightarrow> nat \<Rightarrow> vertex \<Rightarrow> js_error + pixel_manager" where
  "addColorVertex pm colorIndex rowIndex colIndex v =
     (case getBufferGeometry pm colorIndex (groupNumber colorIndex rowIndex colIndex) of
        Inl e \<Rightarrow> Inl e
      | Inr hashed \<Rightarrow>
         (case (if int rowIndex = centerRow \<and> int colIndex = centerCol
                then getBufferGeometry pm (Some 0) (Some 0) else Inr hashed) of
            Inl e \<Rightarrow> Inl e
          | Inr None \<Rightarrow> Inl TypeError
          | Inr (Some (i, j)) \<Rightarrow>
              Inr (pm\<lparr>bufferGeometries := updateBucket (emitQuad pm v) i j (bufferGeometries pm)\<rparr>)))"

text \<open>
  \<open>row[colIndex]\<close> followed by \<open>parseInt(digit, 16)\<close>: a subscript past the end of the
  row is \<open>undefined\<close>, which parses to \<open>NaN\<close>. The grid \<open>data\<close> (imported from
  \<open>data/data.json\<close>) is a parameter: a list of rows, each a string of one-character cells.
\<close>

definition cellColorIndex :: "string \<Rightarrow> nat \<Rightarrow> nat option" where
  "cellColorIndex row colIndex =
     (if colIndex < length row then parseInt16 (row ! colIndex) else None)"

text \<open>
  \<open>addColorVertices\<close>: \<open>nRows\<close>, \<open>nCols\<close> and the two offsets are read once, before the
  loops.
\<close>

definition offsetRow :: "pixel_manager \<Rightarrow> real" where
  "offsetRow pm = real (nRows pm) * pixelSize pm / 2 - 0.5 * pixelSize pm"

definition offSetCol :: "pixel_manager \<Rightarrow> real" where
  "offSetCol pm = real (nCols pm) * pixelSize pm / 2 + 7 * pixelSize pm"

definition cellVertex :: "pixel_manager \<Rightarrow> real \<Rightarrow> real \<Rightarrow> nat \<Rightarrow> nat \<Rightarrow> vertex" where
  "cellVertex pm offRow offCol rowIndex colIndex =
     \<lparr>vertex_x = real rowIndex * pixelSize pm - offRow,
      vertex_y = real colIndex * pixelSize pm - offCol,
      vertex_z = 0\<rparr>"

fun colLoop ::
    "string \<Rightarrow> real \<Rightarrow> real \<Rightarrow> nat \<Rightarrow> nat list \<Rightarrow> pixel_manager \<Rightarrow> js_error + pixel_manager" where
  "colLoop row offRow offCol rowIndex [] pm = Inr pm"
| "colLoop row offRow offCol rowIndex (colIndex # rest) pm =
     (case addColorVertex pm (cellColorIndex row colIndex) rowIndex colIndex
             (cellVertex pm offRow offCol rowIndex colIndex) of
        Inl e \<Rightarrow> Inl e
      | Inr pm' \<Rightarrow> colLoop row offRow offCol rowIndex rest pm')"

fun rowLoop ::
    "string list \<Rightarrow> nat \<Rightarrow> real \<Rightarrow> real \<Rightarrow> nat list \<Rightarrow> pixel_manager
       \<Rightarrow> js_error + pixel_manager" where
  "rowLoop data n offRow offCol [] pm = Inr pm"
| "rowLoop data n offRow offCol (rowIndex # rest) pm =
     (case colLoop (data ! rowIndex) offRow offCol rowIndex [0..<n] pm of
        Inl e \<Rightarrow> Inl e
      | Inr pm' \<Rightarrow> rowLoop data n offRow offCol rest pm')"

definition addColorVertices :: "string list \<Rightarrow> pixel_manager \<Rightarrow> js_error + pixel_manager" where
  "addColorVertices data pm =
     rowLoop data (nCols pm) (offsetRow pm) (offSetCol pm) [0..<nRows pm] pm"

subsection \<open>Construction\<close>

text \<open>
  The keys of \<open>countsByColor\<close> in the order \<open>_.map\<close> visits them: the integer keys
  ascending, then the key \<open>NaN\<close> if some cell did not parse.
\<close>

definition colorKeys :: "string list \<Rightarrow> nat option list" where
  "colorKeys data =
     (let parsed = concat (map (map parseInt16) data)
      in map Some (sort (remdups (List.map_filter id parsed)))
         @ (if None \<in> set parsed then [None] else []))"

text \<open>
  One mesh of \<open>createBufferGeometries\<close>: \<open>Float32BufferAttribute\<close> and
  \<open>Uint16BufferAttribute\<close> copy the arrays, the uniforms start at the nominal size and a
  depth compensation of 1, a new mesh sits at the origin.
\<close>

definition newPixelGroup :: "pixel_manager \<Rightarrow> nat \<Rightarrow> bufferGeometry \<Rightarrow> pixelGroup" where
  "newPixelGroup pm colorIndex bg =
     \<lparr>position = map Num (positions bg),
      center = map Num (centers bg),
      vertexIndex = map (\<lambda>n. n mod 65536) (indices bg),
      position_needsUpdate = False,
      color = colorIndex,
      size_value = pixelSize pm,
      size_needsUpdate = False,
      depthCompensation = 1,
      position_z = 0\<rparr>"

definition createBufferGeometries :: "pixel_manager \<Rightarrow> pixel_manager" where
  "createBufferGeometries pm =
     pm\<lparr>pixelGroups := pixelGroups pm
          @ concat (map (\<lambda>(colorIndex, bufferGeometryGroup).
                           map (newPixelGroup pm colorIndex) bufferGeometryGroup)
                        (enumerate 0 (bufferGeometries pm)))\<rparr>"

text \<open>The constructor; \<open>data[0].length\<close> throws on an empty grid.\<close>

definition newPixelManager :: "string list \<Rightarrow> camera \<Rightarrow> js_error + pixel_manager" where
  "newPixelManager data cam =
     (if data = [] then Inl TypeError
      else
        (case addColorVertices data
                \<lparr>nRows = length data,
                 nCols = length (data ! 0),
                 bufferGeometries =
                   map (\<lambda>colorIndex. replicate (nat (getNGroups colorIndex)) emptyBufferGeometry)
                       (colorKeys data),
                 pixelGroups = [],
                 camera = cam,
                 pixelSize = PIXEL_SIZE\<rparr> of
           Inl e \<Rightarrow> Inl e
         | Inr pm \<Rightarrow> Inr (createBufferGeometries pm)))"

subsection \<open>Dynamic sizing\<close>

text \<open>
  \<open>getSize\<close>; \<open>window.innerHeight\<close> is a parameter. The model is the code's for a
  window of positive height (the quotient by 0 is \<open>Infinity\<close> in JavaScript).
\<close>

definition getSize :: "nat \<Rightarrow> pixel_manager \<Rightarrow> nat \<Rightarrow> js_error + real" where
  "getSize innerHeight pm pixelGroupIndex =
     (let zoom = camera_z (camera pm);
          distanceOffset = 16;
          vFOV = fov (camera pm) * pi / 180;
          maxPixelFraction = MAX_PIXEL_SIZE_PX / real innerHeight
      in if pixelGroupIndex < length (pixelGroups pm) then
           (let pg = pixelGroups pm ! pixelGroupIndex;
                height = 2 * tan (vFOV / 2) * (zoom - position_z pg / distanceOffset);
                maxSize = maxPixelFraction * height
            in Inr (min (pixelSize pm) maxSize))
         else Inl TypeError)"

text \<open>
  The operands of \<open>!==\<close>: a number, or an object (compared by reference). The uniform
  object \<open>material.uniforms.size\<close> of the pixel group at index \<open>i\<close> is the object \<open>i\<close>.
\<close>

datatype js_value = Number real | Object nat

fun strictNotEquals :: "js_value \<Rightarrow> js_value \<Rightarrow> bool" where
  "strictNotEquals (Number a) (Number b) = (a \<noteq> b)"
| "strictNotEquals (Object r) (Object s) = (r \<noteq> s)"
| "strictNotEquals (Number a) (Object s) = True"
| "strictNotEquals (Object r) (Number b) = True"

function updatePixelSizeFrom :: "nat \<Rightarrow> pixel_manager \<Rightarrow> nat \<Rightarrow> js_error + pixel_manager" where
  "updatePixelSizeFrom innerHeight pm i =
     (if i < length (pixelGroups pm) then
        (case getSize innerHeight pm i of
           Inl e \<Rightarrow> Inl e
         | Inr sz \<Rightarrow>
             updatePixelSizeFrom innerHeight
               (if strictNotEquals (Number sz) (Object i)
                then pm\<lparr>pixelGroups := (pixelGroups pm)
                         [i := (pixelGroups pm ! i)\<lparr>size_value := sz, size_needsUpdate := True\<rparr>]\<rparr>
                else pm)
               (Suc i))
      else Inr pm)"
  by pat_completeness auto
termination
  by (relation "measure (\<lambda>(innerHeight, pm, i). length (pixelGroups pm) - i)") auto

declare updatePixelSizeFrom.simps [simp del]

definition updatePixelSize :: "nat \<Rightarrow> pixel_manager \<Rightarrow> js_error + pixel_manager" where
  "updatePixelSize innerHeight pm = updatePixelSizeFrom innerHeight pm 0"

text \<open>
  Reads and arithmetic on typed-array elements: a read past the end is \<open>undefined\<close>, and
  \<open>undefined\<close> or \<open>NaN\<close> in a sum gives \<open>NaN\<close>.
\<close>

definition readF32 :: "f32 list \<Rightarrow> nat \<Rightarrow> f32" where
  "readF32 array i = (if i < length array then array ! i else NaN)"

fun f32_plus :: "f32 \<Rightarrow> real \<Rightarrow> f32" where
  "f32_plus (Num a) r = Num (a + r)"
| "f32_plus NaN r = NaN"

fun f32_minus :: "f32 \<Rightarrow> real \<Rightarrow> f32" where
  "f32_minus (Num a) r = Num (a - r)"
| "f32_minus NaN r = NaN"

text \<open>
  The body of the inner loop of \<open>updateBufferGeometry\<close> up to the two stores: the
  \<open>x\<close> and \<open>y\<close> of vertex \<open>j\<close>. With no branch taken both stay \<open>undefined\<close> and
  are stored as \<open>NaN\<close>.
\<close>

definition cornerXY :: "real \<Rightarrow> f32 list \<Rightarrow> nat list \<Rightarrow> nat \<Rightarrow> f32 \<times> f32" where
  "cornerXY sz centerBufferArray vertexIndexBufferArray j =
     (let vertexIndex = (if j < length vertexIndexBufferArray
                         then Some (vertexIndexBufferArray ! j) else None);
          centerX = readF32 centerBufferArray (j * 3 + 0);
          centerY = readF32 centerBufferArray (j * 3 + 1)
      in if vertexIndex = Some 0 then
           (f32_minus centerX (0.5 * sz), f32_plus centerY (0.5 * sz))
         else if vertexIndex = Some 1 then
           (f32_plus centerX (0.5 * sz), f32_plus centerY (0.5 * sz))
         else if vertexIndex = Some 2 then
           (f32_minus centerX (0.5 * sz), f32_minus centerY (0.5 * sz))
         else if vertexIndex = Some 3 then
           (f32_plus centerX (0.5 * sz), f32_minus centerY (0.5 * sz))
         else (NaN, NaN))"

text \<open>
  The inner loop; a store past the end of a typed array is ignored, as by list update.
\<close>

function vertexLoop :: "real \<Rightarrow> f32 list \<Rightarrow> nat list \<Rightarrow> nat \<Rightarrow> f32 list \<Rightarrow> f32 list" where
  "vertexLoop sz centerBufferArray vertexIndexBufferArray j positionBufferArray =
     (if real j < real (length positionBufferArray) / 3 then
        (let xy = cornerXY sz centerBufferArray vertexIndexBufferArray j
         in vertexLoop sz centerBufferArray vertexIndexBufferArray (Suc j)
              (positionBufferArray[j * 3 + 0 := fst xy, j * 3 + 1 := snd xy]))
      else positionBufferArray)"
  by pat_completeness auto
termination
  by (relation "measure (\<lambda>(sz, centerBufferArray, vertexIndexBufferArray, j, positionBufferArray).
                           length positionBufferArray - 3 * j)") auto

declare vertexLoop.simps [simp del]

function updateBufferGeometryFrom :: "nat \<Rightarrow> pixel_manager \<Rightarrow> nat \<Rightarrow> js_error + pixel_manager" where
  "updateBufferGeometryFrom innerHeight pm i =
     (if i < length (pixelGroups pm) then
        (case getSize innerHeight pm i of
           Inl e \<Rightarrow> Inl e
         | Inr sz \<Rightarrow>
            (let pg = pixelGroups pm ! i;
                 positionBufferArray = vertexLoop sz (center pg) (vertexIndex pg) 0 (position pg)
             in updateBufferGeometryFrom innerHeight
                  (pm\<lparr>pixelGroups := (pixelGroups pm)
                        [i := pg\<lparr>position := positionBufferArray,
                                 position_needsUpdate := True\<rparr>]\<rparr>)
                  (Suc i)))
      else Inr pm)"
  by pat_completeness auto
termination
  by (relation "measure (\<lambda>(innerHeight, pm, i). length (pixelGroups pm) - i)") auto

declare updateBufferGeometryFrom.simps [simp del]

definition updateBufferGeometry :: "nat \<Rightarrow> pixel_manager \<Rightarrow> js_error + pixel_manager" where
  "updateBufferGeometry innerHeight pm = updateBufferGeometryFrom innerHeight pm 0"

subsection \<open>Coordinate mapping\<close>

record pixel =
  pixel_row :: int
  pixel_col :: int
  pixel_colorIndex :: "nat option"

text \<open>
  \<open>getPixelFromCoordinates\<close>: \<open>data[row]\<close> is \<open>undefined\<close> for a row outside the grid
  and the subscript on it throws; inside a row, a column outside it reads \<open>undefined\<close>,
  which parses to \<open>NaN\<close>.
\<close>

definition getPixelFromCoordinates ::
    "string list \<Rightarrow> pixel_manager \<Rightarrow> real \<Rightarrow> real \<Rightarrow> js_error + pixel" where
  "getPixelFromCoordinates data pm x y =
     (let row = centerRow + \<lfloor>x / pixelSize pm + 0.5\<rfloor>;
          col = centerCol + \<lfloor>y / pixelSize pm + 0.5\<rfloor>
      in if 0 \<le> row \<and> nat row < length data then
           Inr \<lparr>pixel_row = row, pixel_col = col,
                pixel_colorIndex =
                  (if 0 \<le> col then cellColorIndex (data ! nat row) (nat col) else None)\<rparr>
         else Inl TypeError)"

definition getCoordinatesFromPixel :: "pixel_manager \<Rightarrow> int \<Rightarrow> int \<Rightarrow> real \<times> real" where
  "getCoordinatesFromPixel pm row col =
     (let x = real_of_int (row - centerRow) * pixelSize pm;
          y = real_of_int (col - centerCol) * pixelSize pm
      in (x, y))"

subsection \<open>The specification's formulas and the predicates of the proofs\<close>

text \<open>
  The world height and the largest world size as the specification words them
  (\<open>worldHeight\<close>, \<open>maxWorldSize\<close>), to be compared with what \<open>getSize\<close> computes.
\<close>

definition spec_worldHeight :: "real \<Rightarrow> real \<Rightarrow> real \<Rightarrow> real \<Rightarrow> real" where
  "spec_worldHeight fovDegrees cameraZ batchDepthZ distanceOffset =
     2 * tan ((fovDegrees * pi / 180) / 2) * (cameraZ - batchDepthZ / distanceOffset)"

definition spec_maxWorldSize :: "real \<Rightarrow> real \<Rightarrow> real \<Rightarrow> real \<Rightarrow> real \<Rightarrow> real \<Rightarrow> real" where
  "spec_maxWorldSize maxFootprintPx viewportHeightPx fovDegrees cameraZ batchDepthZ distanceOffset =
     (maxFootprintPx / viewportHeightPx) * 2 * tan ((fovDegrees * pi / 180) / 2)
       * (cameraZ - batchDepthZ / distanceOffset)"

text \<open>
  A manager for the concrete instances below: the scalar fields as the constructor sets
  them for a grid of the given extents, with no bucket and no mesh.
\<close>

definition exampleManager :: "nat \<Rightarrow> nat \<Rightarrow> pixel_manager" where
  "exampleManager r c =
     \<lparr>nRows = r, nCols = c, bufferGeometries = [], pixelGroups = [],
      camera = \<lparr>fov = 50, camera_z = 30\<rparr>, pixelSize = PIXEL_SIZE\<rparr>"

text \<open>The three arrays of a bucket in step, in whole triangles.\<close>

definition lockstep :: "bufferGeometry \<Rightarrow> bool" where
  "lockstep bg =
     (length (positions bg) = length (centers bg)
      \<and> length (centers bg) = 3 * length (indices bg)
      \<and> length (indices bg) mod 3 = 0)"

definition allLockstep :: "pixel_manager \<Rightarrow> bool" where
  "allLockstep pm = (\<forall>group \<in> set (bufferGeometries pm). \<forall>bg \<in> set group. lockstep bg)"

text \<open>
  A cell fits buckets of the given shape (the number of groups per colour) when its colour
  parses, has a bucket array, its group number is an index into that array, and bucket
  \<open>[0, 0]\<close> exists.
\<close>

definition cellFits :: "nat list \<Rightarrow> string \<Rightarrow> nat \<Rightarrow> nat \<Rightarrow> bool" where
  "cellFits shape row rowIndex colIndex =
     (case cellColorIndex row colIndex of
        None \<Rightarrow> False
      | Some ci \<Rightarrow>
          (case groupNumber (Some ci) rowIndex colIndex of
             None \<Rightarrow> False
           | Some g \<Rightarrow> ci < length shape \<and> 0 \<le> g \<and> nat g < shape ! ci \<and> 0 < shape ! 0))"


text \<open>
  What \<open>getSize\<close> returns for a mesh of the manager, and a scene for the concrete
  instances below: one mesh of one vertex with corner tag 0, anchored at (5, 7, 0), under a
  camera of 90 degrees at the given distance.
\<close>

definition groupSize :: "nat \<Rightarrow> pixel_manager \<Rightarrow> pixelGroup \<Rightarrow> real" where
  "groupSize innerHeight pm pg =
     min (pixelSize pm)
       (MAX_PIXEL_SIZE_PX / real innerHeight
          * (2 * tan (fov (camera pm) * pi / 180 / 2)
               * (camera_z (camera pm) - position_z pg / 16)))"

definition exampleGroup :: pixelGroup where
  "exampleGroup =
     \<lparr>position = [Num 0, Num 12, Num 0], center = [Num 5, Num 7, Num 0], vertexIndex = [0],
      position_needsUpdate = False, color = 0, size_value = 10, size_needsUpdate = False,
      depthCompensation = 1, position_z = 0\<rparr>"

definition exampleScene :: "real \<Rightarrow> pixel_manager" where
  "exampleScene zoom =
     (exampleManager 1 1)\<lparr>pixelGroups := [exampleGroup], camera := \<lparr>fov = 90, camera_z = zoom\<rparr>\<rparr>"

section \<open>Properties\<close>

subsection \<open>Group assignment\<close>

lemma ToInt32_id: "0 \<le> v \<Longrightarrow> v < 2 ^ 31 \<Longrightarrow> ToInt32 v = v"
  by (simp add: ToInt32_def)

lemma calc_nonneg: "0 \<le> calc r c"
  by (simp add: calc_def)

text \<open>
  C7 (as amended). For every colour index and every cell whose hash input
  \<open>rowIndex + colIndex + rowIndex\<^sup>2 * colIndex\<close> is below \<open>2\<^sup>3\<^sup>1\<close>, the shifted hash
  reduced modulo \<open>getNGroups(colorIndex) - 1\<close> is a sub-group index between 0 and
  \<open>getNGroups(colorIndex) - 1\<close> inclusive.
\<close>

theorem groupNumber_in_range:
  assumes "calc rowIndex colIndex < 2 ^ 31"
  shows "\<exists>g. groupNumber colorIndex rowIndex colIndex = Some g
           \<and> 0 \<le> g \<and> g \<le> getNGroups colorIndex - 1"
proof -
  define h where "h = js_shr (calc rowIndex colIndex) MAGIC_NUMBER"
  have "ToInt32 (calc rowIndex colIndex) = calc rowIndex colIndex"
    using assms calc_nonneg by (simp add: ToInt32_id)
  then have h0: "0 \<le> h"
    using calc_nonneg by (simp add: h_def js_shr_def pos_imp_zdiv_nonneg_iff)
  define n where "n = getNGroups colorIndex - 1"
  have n: "n = 8 \<or> n = 2"
    by (simp add: n_def getNGroups_def N_GROUPS_def)
  have "groupNumber colorIndex rowIndex colIndex = Some (h mod n)"
    using h0 n by (auto simp: groupNumber_def js_rem_def h_def n_def sgn_if)
  moreover have "0 \<le> h mod n" "h mod n \<le> n"
    using n by auto
  ultimately show ?thesis
    by (simp add: n_def)
qed

theorem groupNumber_in_range_witness:
  "calc 132 76 < 2 ^ 31 \<and>
   (\<exists>g. groupNumber (Some 0) 132 76 = Some g \<and> 0 \<le> g \<and> g \<le> getNGroups (Some 0) - 1)"
  using groupNumber_in_range [of 132 76 "Some 0"] by (simp add: calc_def)

text \<open>
  At row 47000, column 1 the hash input is 2209047001, which \<open>>>\<close> reads as the negative
  32-bit integer -2085920295; the shift gives -16296253 and the remainder by 2 is -1.
\<close>

theorem groupNumber_overflow_counterexample:
  "groupNumber (Some 1) 47000 1 = Some (- 1) \<and> getNGroups (Some 1) - 1 = 2"
  by (simp add: groupNumber_def js_rem_def js_shr_def calc_def ToInt32_def getNGroups_def
      N_GROUPS_def MAGIC_NUMBER_def)

subsection \<open>Coordinate mapping\<close>

lemma floor_int_plus_half: "\<lfloor>real_of_int k + 0.5\<rfloor> = k"
  by linarith

lemma cell_index_of_offset:
  assumes "ps \<noteq> 0"
  shows "c + \<lfloor>real_of_int (k - c) * ps / ps + 0.5\<rfloor> = k"
proof -
  have "real_of_int (k - c) * ps / ps = real_of_int (k - c)"
    using assms by simp
  then show ?thesis
    by (simp add: floor_int_plus_half)
qed

text \<open>
  C2. For every row and column inside the grid, \<open>getPixelFromCoordinates\<close> applied to the
  world point that \<open>getCoordinatesFromPixel\<close> gives for them returns exactly that row and
  column (with the colour index of the cell). The pixel size is not zero; the constructor
  sets it to 10.
\<close>

theorem getPixelFromCoordinates_roundtrip:
  assumes "pixelSize pm \<noteq> 0"
    and "0 \<le> row" and "nat row < length data"
    and "0 \<le> col" and "nat col < length (data ! nat row)"
  shows "getPixelFromCoordinates data pm
           (fst (getCoordinatesFromPixel pm row col)) (snd (getCoordinatesFromPixel pm row col))
         = Inr \<lparr>pixel_row = row, pixel_col = col,
                pixel_colorIndex = parseInt16 (data ! nat row ! nat col)\<rparr>"
  using assms
  by (simp add: getPixelFromCoordinates_def getCoordinatesFromPixel_def cellColorIndex_def
      cell_index_of_offset del: of_int_diff)

theorem getPixelFromCoordinates_roundtrip_witness:
  "getPixelFromCoordinates [''01'', ''10'']
     (exampleManager 2 2)
     (- 1310) (- 760)
   = Inr \<lparr>pixel_row = 1, pixel_col = 0, pixel_colorIndex = Some 1\<rparr>"
  using getPixelFromCoordinates_roundtrip [of
      "exampleManager 2 2" 1 "[''01'', ''10'']" 0]
  by (simp add: exampleManager_def PIXEL_SIZE_def getCoordinatesFromPixel_def centerRow_def
      centerCol_def parseInt16_def)

text \<open>
  C6 (as amended). No out-of-bounds result exists in the code. When the computed row is
  outside the grid the call throws a \<open>TypeError\<close>; when the row is inside and the computed
  column is outside that row, the call returns the row and the column with the colour
  index \<open>NaN\<close>.
\<close>

theorem getPixelFromCoordinates_outside:
  assumes "pixelSize pm \<noteq> 0"
    and "row = centerRow + \<lfloor>x / pixelSize pm + 0.5\<rfloor>"
    and "col = centerCol + \<lfloor>y / pixelSize pm + 0.5\<rfloor>"
  shows "(row < 0 \<or> int (length data) \<le> row
            \<longrightarrow> getPixelFromCoordinates data pm x y = Inl TypeError)
       \<and> (0 \<le> row \<and> row < int (length data)
            \<and> (col < 0 \<or> int (length (data ! nat row)) \<le> col)
            \<longrightarrow> getPixelFromCoordinates data pm x y
                  = Inr \<lparr>pixel_row = row, pixel_col = col, pixel_colorIndex = None\<rparr>)"
  using assms(2,3)
  by (auto simp: getPixelFromCoordinates_def cellColorIndex_def Let_def)

theorem getPixelFromCoordinates_outside_witness:
  "getPixelFromCoordinates [''01'', ''10'']
     (exampleManager 2 2) 25 0 = Inl TypeError
   \<and> getPixelFromCoordinates [''01'', ''10'']
     (exampleManager 2 2) (- 1320) 0
     = Inr \<lparr>pixel_row = 0, pixel_col = 76, pixel_colorIndex = None\<rparr>"
  using getPixelFromCoordinates_outside [of
      "exampleManager 2 2" 135 25 76 0 "[''01'', ''10'']"]
    getPixelFromCoordinates_outside [of
      "exampleManager 2 2" 0 "- 1320" 76 0 "[''01'', ''10'']"]
  by (simp add: exampleManager_def PIXEL_SIZE_def centerRow_def centerCol_def)

text \<open>
  On the two-by-two grid the world origin maps to row 132, outside the grid: the call
  throws. The point (-1320, 0) maps to row 0, column 76: the call returns with the colour
  index \<open>NaN\<close>.
\<close>

theorem getPixelFromCoordinates_outside_counterexample:
  "getPixelFromCoordinates [''01'', ''10'']
     (exampleManager 2 2) 0 0 = Inl TypeError
   \<and> getPixelFromCoordinates [''01'', ''10'']
     (exampleManager 2 2) (- 1320) 0
     = Inr \<lparr>pixel_row = 0, pixel_col = 76, pixel_colorIndex = None\<rparr>"
  by (simp add: exampleManager_def PIXEL_SIZE_def getPixelFromCoordinates_def cellColorIndex_def
      centerRow_def centerCol_def)

text \<open>
  C9 (as amended). On a grid of 265 rows and 138 columns the builder's anchor of every
  cell is the point \<open>getCoordinatesFromPixel\<close> gives for it, at depth 0, and the anchor of
  the centre cell (row 132, column 76) is the world origin.
\<close>

theorem cellVertex_agrees:
  assumes "nRows pm = 265" and "nCols pm = 138"
  shows "cellVertex pm (offsetRow pm) (offSetCol pm) rowIndex colIndex
           = \<lparr>vertex_x = fst (getCoordinatesFromPixel pm (int rowIndex) (int colIndex)),
              vertex_y = snd (getCoordinatesFromPixel pm (int rowIndex) (int colIndex)),
              vertex_z = 0\<rparr>
       \<and> cellVertex pm (offsetRow pm) (offSetCol pm) (nat centerRow) (nat centerCol)
           = \<lparr>vertex_x = 0, vertex_y = 0, vertex_z = 0\<rparr>"
  using assms
  by (simp add: cellVertex_def offsetRow_def offSetCol_def getCoordinatesFromPixel_def
      centerRow_def centerCol_def algebra_simps)

theorem cellVertex_agrees_witness:
  "cellVertex (exampleManager 265 138) (offsetRow (exampleManager 265 138)) (offSetCol (exampleManager 265 138)) 133 76
     = \<lparr>vertex_x = 10, vertex_y = 0, vertex_z = 0\<rparr>"
  using cellVertex_agrees [of
      "exampleManager 265 138" 133 76]
  by (simp add: exampleManager_def PIXEL_SIZE_def getCoordinatesFromPixel_def centerRow_def
      centerCol_def)

text \<open>
  On a grid of 133 rows and 77 columns the anchor of the centre cell is (660, 305, 0),
  while \<open>getCoordinatesFromPixel\<close> gives (0, 0) for it.
\<close>

theorem cellVertex_counterexample:
  "cellVertex (exampleManager 133 77) (offsetRow (exampleManager 133 77)) (offSetCol (exampleManager 133 77)) 132 76
     = \<lparr>vertex_x = 660, vertex_y = 305, vertex_z = 0\<rparr>
   \<and> getCoordinatesFromPixel (exampleManager 133 77) 132 76 = (0, 0)"
  by (simp add: exampleManager_def PIXEL_SIZE_def cellVertex_def offsetRow_def offSetCol_def
      getCoordinatesFromPixel_def centerRow_def centerCol_def)

subsection \<open>Batch builder\<close>

lemma emitQuad_lengths:
  "length (positions (emitQuad pm v bg)) = length (positions bg) + 18"
  "length (centers (emitQuad pm v bg)) = length (centers bg) + 18"
  "length (indices (emitQuad pm v bg)) = length (indices bg) + 6"
  by (simp_all add: emitQuad_def PlaneGeometry_def translate_def)

lemma lockstep_emitQuad: "lockstep bg \<Longrightarrow> lockstep (emitQuad pm v bg)"
  by (simp add: lockstep_def emitQuad_lengths, presburger)

lemma length_updateBucket [simp]: "length (updateBucket f i j bgs) = length bgs"
  by (simp add: updateBucket_def)

lemma nth_updateBucket:
  assumes "i' < length bgs"
  shows "updateBucket f i j bgs ! i' =
           (if i' = i then (bgs ! i)[j := f (bgs ! i ! j)] else bgs ! i')"
  using assms by (simp add: updateBucket_def nth_list_update)

lemma updateBucket_pred:
  assumes "\<forall>group \<in> set bgs. \<forall>bg \<in> set group. P bg"
    and "\<And>bg. P bg \<Longrightarrow> P (f bg)"
  shows "\<forall>group \<in> set (updateBucket f i j bgs). \<forall>bg \<in> set group. P bg"
proof (intro ballI)
  fix group bg
  assume g: "group \<in> set (updateBucket f i j bgs)" and b: "bg \<in> set group"
  from g have "group \<in> set bgs \<or> (i < length bgs \<and> group = (bgs ! i)[j := f (bgs ! i ! j)])"
    unfolding updateBucket_def
    by (metis insertE list_update_beyond not_le_imp_less set_update_subset_insert subsetD)
  then show "P bg"
  proof
    assume "group \<in> set bgs"
    with assms(1) b show ?thesis by blast
  next
    assume h: "i < length bgs \<and> group = (bgs ! i)[j := f (bgs ! i ! j)]"
    then have old: "\<forall>x \<in> set (bgs ! i). P x"
      using assms(1) nth_mem by blast
    from h b have "bg \<in> set (bgs ! i) \<or> (j < length (bgs ! i) \<and> bg = f (bgs ! i ! j))"
      by (metis insertE list_update_beyond not_le_imp_less set_update_subset_insert subsetD)
    then show ?thesis
      using old assms(2) nth_mem by blast
  qed
qed

lemma addColorVertex_lockstep:
  assumes "addColorVertex pm colorIndex rowIndex colIndex v = Inr pm'"
    and "allLockstep pm"
  shows "allLockstep pm'"
proof -
  from assms(1) obtain i j where
    "pm' = pm\<lparr>bufferGeometries := updateBucket (emitQuad pm v) i j (bufferGeometries pm)\<rparr>"
    by (auto simp: addColorVertex_def split: sum.splits option.splits if_splits)
  then show ?thesis
    using assms(2) updateBucket_pred [of "bufferGeometries pm" lockstep "emitQuad pm v" i j]
    by (simp add: allLockstep_def lockstep_emitQuad)
qed

lemma colLoop_lockstep:
  "colLoop row offRow offCol rowIndex cols pm = Inr pm' \<Longrightarrow> allLockstep pm \<Longrightarrow> allLockstep pm'"
proof (induction cols arbitrary: pm)
  case Nil
  then show ?case by simp
next
  case (Cons colIndex rest)
  then show ?case
    by (auto split: sum.splits dest: addColorVertex_lockstep)
qed

lemma rowLoop_lockstep:
  "rowLoop data n offRow offCol rows pm = Inr pm' \<Longrightarrow> allLockstep pm \<Longrightarrow> allLockstep pm'"
proof (induction rows arbitrary: pm)
  case Nil
  then show ?case by simp
next
  case (Cons rowIndex rest)
  then show ?case
    by (auto split: sum.splits dest: colLoop_lockstep)
qed

lemma createBufferGeometries_buckets [simp]:
  "bufferGeometries (createBufferGeometries pm) = bufferGeometries pm"
  by (simp add: createBufferGeometries_def)

lemma map_length_updateBucket [simp]:
  "map length (updateBucket f i j bgs) = map length bgs"
  by (rule nth_equalityI) (simp_all add: nth_updateBucket)

lemma addColorVertex_returns:
  assumes "map length (bufferGeometries pm) = shape"
    and "cellColorIndex row colIndex = Some ci"
    and "cellFits shape row rowIndex colIndex"
  shows "\<exists>pm'. addColorVertex pm (Some ci) rowIndex colIndex v = Inr pm'
           \<and> map length (bufferGeometries pm') = shape"
proof -
  from assms(2,3) obtain g where g: "groupNumber (Some ci) rowIndex colIndex = Some g"
    and b: "ci < length shape" "0 \<le> g" "nat g < shape ! ci" "0 < shape ! 0"
    by (auto simp: cellFits_def split: option.splits)
  have len: "length (bufferGeometries pm) = length shape"
    using assms(1) by (metis length_map)
  have nth: "length (bufferGeometries pm ! k) = shape ! k" if "k < length shape" for k
    using assms(1) that len by (metis nth_map)
  have "0 < length shape"
    using b(1) by (cases shape) simp_all
  then show ?thesis
    using g b len nth [of ci] nth [of 0] assms(1)
    by (simp add: addColorVertex_def getBufferGeometry_def)
qed

lemma colLoop_returns:
  assumes "map length (bufferGeometries pm) = shape"
    and "\<forall>colIndex \<in> set cols. cellFits shape row rowIndex colIndex"
  shows "\<exists>pm'. colLoop row offRow offCol rowIndex cols pm = Inr pm'
           \<and> map length (bufferGeometries pm') = shape"
  using assms
proof (induction cols arbitrary: pm)
  case Nil
  then show ?case by simp
next
  case (Cons colIndex rest)
  from Cons.prems(2) obtain ci where ci: "cellColorIndex row colIndex = Some ci"
    by (auto simp: cellFits_def split: option.splits)
  have "cellFits shape row rowIndex colIndex"
    using Cons.prems(2) by simp
  from addColorVertex_returns [OF Cons.prems(1) ci this] obtain pm1 where pm1:
    "addColorVertex pm (Some ci) rowIndex colIndex (cellVertex pm offRow offCol rowIndex colIndex)
       = Inr pm1"
    "map length (bufferGeometries pm1) = shape"
    by blast
  from Cons.IH [OF pm1(2)] Cons.prems(2) show ?case
    by (simp add: ci pm1(1))
qed

lemma rowLoop_returns:
  assumes "map length (bufferGeometries pm) = shape"
    and "\<forall>rowIndex \<in> set rows. \<forall>colIndex \<in> set [0..<n].
           cellFits shape (data ! rowIndex) rowIndex colIndex"
  shows "\<exists>pm'. rowLoop data n offRow offCol rows pm = Inr pm'
           \<and> map length (bufferGeometries pm') = shape"
  using assms
proof (induction rows arbitrary: pm)
  case Nil
  then show ?case by simp
next
  case (Cons rowIndex rest)
  have "\<forall>colIndex \<in> set [0..<n]. cellFits shape (data ! rowIndex) rowIndex colIndex"
    using Cons.prems(2) by simp
  from colLoop_returns [OF Cons.prems(1) this] obtain pm1 where pm1:
    "colLoop (data ! rowIndex) offRow offCol rowIndex [0..<n] pm = Inr pm1"
    "map length (bufferGeometries pm1) = shape"
    by blast
  from Cons.IH [OF pm1(2)] Cons.prems(2) show ?case
    by (simp add: pm1(1))
qed

lemma upt_2: "[0..<2] = [0, 1]"
  by (simp add: upt_rec)

lemma scenario_keys: "colorKeys [''01'', ''10''] = [Some 0, Some 1]"
  by (simp add: colorKeys_def parseInt16_def List.map_filter_def)

lemma scenario_cells:
  "cellFits [9, 3] ''01'' 0 0" "cellFits [9, 3] ''01'' 0 1"
  "cellFits [9, 3] ''10'' 1 0" "cellFits [9, 3] ''10'' 1 1"
  by (simp_all add: cellFits_def cellColorIndex_def parseInt16_def groupNumber_def js_rem_def
      js_shr_def calc_def ToInt32_def getNGroups_def N_GROUPS_def MAGIC_NUMBER_def)

text \<open>
  The constructor returns on every non-empty grid whose cells all fit the buckets that it
  makes from the colours of the grid.
\<close>

lemma newPixelManager_returns:
  assumes "data \<noteq> []"
    and "\<forall>rowIndex \<in> set [0..<length data]. \<forall>colIndex \<in> set [0..<length (data ! 0)].
           cellFits (map (\<lambda>colorIndex. nat (getNGroups colorIndex)) (colorKeys data))
             (data ! rowIndex) rowIndex colIndex"
  shows "\<exists>pm. newPixelManager data cam = Inr pm"
proof -
  define pm0 where "pm0 =
     \<lparr>nRows = length data, nCols = length (data ! 0),
      bufferGeometries =
        map (\<lambda>colorIndex. replicate (nat (getNGroups colorIndex)) emptyBufferGeometry)
            (colorKeys data),
      pixelGroups = [], camera = cam, pixelSize = PIXEL_SIZE\<rparr>"
  have shape: "map length (bufferGeometries pm0)
                 = map (\<lambda>colorIndex. nat (getNGroups colorIndex)) (colorKeys data)"
    by (simp add: pm0_def comp_def)
  have n: "nRows pm0 = length data" "nCols pm0 = length (data ! 0)"
    by (simp_all add: pm0_def)
  have "\<exists>pm1. rowLoop data (length (data ! 0)) (offsetRow pm0) (offSetCol pm0)
                 [0..<length data] pm0 = Inr pm1
          \<and> map length (bufferGeometries pm1)
              = map (\<lambda>colorIndex. nat (getNGroups colorIndex)) (colorKeys data)"
    by (rule rowLoop_returns [OF shape assms(2)])
  then obtain pm1 where "addColorVertices data pm0 = Inr pm1"
    unfolding addColorVertices_def n by blast
  then show ?thesis
    using assms(1) unfolding newPixelManager_def pm0_def by simp
qed

lemma scenario_builds:
  "\<exists>pm. newPixelManager [''01'', ''10''] cam = Inr pm"
proof (rule newPixelManager_returns)
  show "[''01'', ''10''] \<noteq> []"
    by simp
  show "\<forall>rowIndex \<in> set [0..<length [''01'', ''10'']].
          \<forall>colIndex \<in> set [0..<length ([''01'', ''10''] ! 0)].
            cellFits (map (\<lambda>colorIndex. nat (getNGroups colorIndex)) (colorKeys [''01'', ''10'']))
              ([''01'', ''10''] ! rowIndex) rowIndex colIndex"
    using scenario_cells
    by (simp add: scenario_keys getNGroups_def N_GROUPS_def upt_2)
qed

text \<open>
  C5. After the constructor's single pass over the grid, in every bucket the position
  list and the centre list have the same length, three times that of the corner-index
  list, and the corner-index list holds whole triangles.
\<close>

theorem build_lockstep:
  assumes "newPixelManager data cam = Inr pm"
  shows "\<forall>group \<in> set (bufferGeometries pm). \<forall>bg \<in> set group.
           length (positions bg) = length (centers bg)
           \<and> length (centers bg) = 3 * length (indices bg)
           \<and> length (indices bg) mod 3 = 0"
proof -
  let ?pm0 = "\<lparr>nRows = length data, nCols = length (data ! 0),
                bufferGeometries =
                  map (\<lambda>colorIndex. replicate (nat (getNGroups colorIndex)) emptyBufferGeometry)
                      (colorKeys data),
                pixelGroups = [], camera = cam, pixelSize = PIXEL_SIZE\<rparr>"
  from assms obtain pm1 where
    pm1: "addColorVertices data ?pm0 = Inr pm1" and pm: "pm = createBufferGeometries pm1"
    by (auto simp: newPixelManager_def split: if_splits sum.splits)
  have "allLockstep ?pm0"
    by (auto simp: allLockstep_def lockstep_def emptyBufferGeometry_def)
  with pm1 have "allLockstep pm1"
    unfolding addColorVertices_def by (rule rowLoop_lockstep)
  then show ?thesis
    by (simp add: pm allLockstep_def lockstep_def)
qed

theorem build_lockstep_witness:
  "\<exists>pm. newPixelManager [''01'', ''10''] \<lparr>fov = 50, camera_z = 30\<rparr> = Inr pm
        \<and> (\<forall>group \<in> set (bufferGeometries pm). \<forall>bg \<in> set group.
              length (positions bg) = length (centers bg)
              \<and> length (centers bg) = 3 * length (indices bg)
              \<and> length (indices bg) mod 3 = 0)"
proof -
  obtain pm where pm: "newPixelManager [''01'', ''10''] \<lparr>fov = 50, camera_z = 30\<rparr> = Inr pm"
    using scenario_builds by blast
  show ?thesis
    using pm build_lockstep [OF pm] by blast
qed

lemma emitQuad_eq:
  "emitQuad pm v bg =
     \<lparr>positions = positions bg @
        [vertex_x v - pixelSize pm / 2, vertex_y v + pixelSize pm / 2, vertex_z v,
         vertex_x v - pixelSize pm / 2, vertex_y v - pixelSize pm / 2, vertex_z v,
         vertex_x v + pixelSize pm / 2, vertex_y v + pixelSize pm / 2, vertex_z v,
         vertex_x v - pixelSize pm / 2, vertex_y v - pixelSize pm / 2, vertex_z v,
         vertex_x v + pixelSize pm / 2, vertex_y v - pixelSize pm / 2, vertex_z v,
         vertex_x v + pixelSize pm / 2, vertex_y v + pixelSize pm / 2, vertex_z v],
      centers = centers bg @
        concat (replicate 6 [vertex_x v, vertex_y v, vertex_z v]),
      indices = indices bg @ [0, 2, 1, 2, 3, 1]\<rparr>"
  by (simp add: emitQuad_def PlaneGeometry_def translate_def eval_nat_numeral algebra_simps)







subsection \<open>Dynamic sizing\<close>

text \<open>
  C3. For every batch index of a manager, in a window of positive height, \<open>getSize\<close>
  returns the smaller of the nominal pixel size and the specification's \<open>maxWorldSize\<close>
  (maximal footprint 128, depth constant 16); so the result never exceeds the nominal
  pixel size, and it is not negative when the world height is positive (the nominal pixel
  size being non-negative).
\<close>

theorem getSize_clamped:
  assumes "i < length (pixelGroups pm)" and "0 < innerHeight"
  shows "\<exists>s. getSize innerHeight pm i = Inr s
           \<and> s = min (pixelSize pm)
                   (spec_maxWorldSize MAX_PIXEL_SIZE_PX (real innerHeight) (fov (camera pm))
                      (camera_z (camera pm)) (position_z (pixelGroups pm ! i)) 16)
           \<and> s \<le> pixelSize pm
           \<and> (0 \<le> pixelSize pm \<and>
                0 < spec_worldHeight (fov (camera pm)) (camera_z (camera pm))
                      (position_z (pixelGroups pm ! i)) 16
                \<longrightarrow> 0 \<le> s)"
proof -
  let ?h = "spec_worldHeight (fov (camera pm)) (camera_z (camera pm))
              (position_z (pixelGroups pm ! i)) 16"
  let ?m = "spec_maxWorldSize MAX_PIXEL_SIZE_PX (real innerHeight) (fov (camera pm))
              (camera_z (camera pm)) (position_z (pixelGroups pm ! i)) 16"
  have m: "?m = MAX_PIXEL_SIZE_PX / real innerHeight * ?h"
    by (simp add: spec_maxWorldSize_def spec_worldHeight_def)
  have eq: "getSize innerHeight pm i = Inr (min (pixelSize pm) ?m)"
    using assms(1) by (simp add: getSize_def Let_def m spec_worldHeight_def)
  have "0 \<le> ?m" if "0 < ?h"
  proof -
    have "0 \<le> MAX_PIXEL_SIZE_PX / real innerHeight"
      by (simp add: MAX_PIXEL_SIZE_PX_def)
    then show ?thesis
      using that unfolding m by (intro mult_nonneg_nonneg) simp_all
  qed
  then show ?thesis
    using eq by auto
qed

theorem getSize_clamped_witness:
  "getSize 128 (exampleScene 3) 0 = Inr 6"
  using getSize_clamped [of 0 "exampleScene 3" 128]
  by (simp add: exampleScene_def exampleManager_def exampleGroup_def PIXEL_SIZE_def
      spec_maxWorldSize_def MAX_PIXEL_SIZE_PX_def tan_45)

lemma getSize_eq:
  "i < length (pixelGroups pm) \<Longrightarrow>
     getSize innerHeight pm i = Inr (groupSize innerHeight pm (pixelGroups pm ! i))"
  by (simp add: getSize_def groupSize_def Let_def)

lemma groupSize_pixelGroups_update [simp]:
  "groupSize innerHeight (pm\<lparr>pixelGroups := gs\<rparr>) pg = groupSize innerHeight pm pg"
  by (simp add: groupSize_def)

lemma take_Suc_update: "i < length xs \<Longrightarrow> take (Suc i) (xs[i := y]) = take i xs @ [y]"
  by (simp add: take_Suc_conv_app_nth)

lemma map_drop_step:
  "i < length xs \<Longrightarrow> map f (drop i xs) = f (xs ! i) # map f (drop (Suc i) xs)"
  by (simp add: Cons_nth_drop_Suc [symmetric])

lemma updatePixelSizeFrom_eq:
  "updatePixelSizeFrom innerHeight pm i =
     Inr (pm\<lparr>pixelGroups := take i (pixelGroups pm)
            @ map (\<lambda>pg. pg\<lparr>size_value := groupSize innerHeight pm pg, size_needsUpdate := True\<rparr>)
                  (drop i (pixelGroups pm))\<rparr>)"
proof (induction innerHeight pm i rule: updatePixelSizeFrom.induct)
  case (1 innerHeight pm i)
  show ?case
  proof (cases "i < length (pixelGroups pm)")
    case True
    let ?pg = "(pixelGroups pm ! i)\<lparr>size_value := groupSize innerHeight pm (pixelGroups pm ! i),
                                      size_needsUpdate := True\<rparr>"
    let ?pm = "pm\<lparr>pixelGroups := (pixelGroups pm)[i := ?pg]\<rparr>"
    have step: "updatePixelSizeFrom innerHeight pm i = updatePixelSizeFrom innerHeight ?pm (Suc i)"
      using True by (subst updatePixelSizeFrom.simps) (simp add: getSize_eq)
    have ih: "updatePixelSizeFrom innerHeight ?pm (Suc i) =
       Inr (?pm\<lparr>pixelGroups := take (Suc i) (pixelGroups ?pm)
            @ map (\<lambda>pg. pg\<lparr>size_value := groupSize innerHeight ?pm pg, size_needsUpdate := True\<rparr>)
                  (drop (Suc i) (pixelGroups ?pm))\<rparr>)"
      using "1.IH" [OF True getSize_eq [OF True]] by simp
    show ?thesis
      using True unfolding step ih
      by (simp add: take_Suc_update map_drop_step [of i "pixelGroups pm"])
  next
    case False
    then show ?thesis
      by (subst updatePixelSizeFrom.simps) simp
  qed
qed

lemma updatePixelSize_eq:
  "updatePixelSize innerHeight pm =
     Inr (pm\<lparr>pixelGroups :=
            map (\<lambda>pg. pg\<lparr>size_value := groupSize innerHeight pm pg, size_needsUpdate := True\<rparr>)
                (pixelGroups pm)\<rparr>)"
  by (simp add: updatePixelSize_def updatePixelSizeFrom_eq)

lemma vertexLoop_length [simp]:
  "length (vertexLoop sz cs vs j ps) = length ps"
proof (induction sz cs vs j ps rule: vertexLoop.induct)
  case (1 sz cs vs j ps)
  show ?case
  proof (cases "real j < real (length ps) / 3")
    case True
    then show ?thesis
      using "1.IH" [OF True refl] by (subst vertexLoop.simps) (simp add: Let_def)
  next
    case False
    then show ?thesis
      by (subst vertexLoop.simps) simp
  qed
qed

lemma vertexLoop_nth:
  assumes "k < length ps"
  shows "vertexLoop sz cs vs j ps ! k =
           (if 3 * j \<le> k \<and> k mod 3 = 0 then fst (cornerXY sz cs vs (k div 3))
            else if 3 * j \<le> k \<and> k mod 3 = 1 then snd (cornerXY sz cs vs (k div 3))
            else ps ! k)"
  using assms
proof (induction sz cs vs j ps rule: vertexLoop.induct)
  case (1 sz cs vs j ps)
  show ?case
  proof (cases "real j < real (length ps) / 3")
    case True
    let ?xy = "cornerXY sz cs vs j"
    let ?ps = "ps[j * 3 + 0 := fst ?xy, j * 3 + 1 := snd ?xy]"
    have step: "vertexLoop sz cs vs j ps = vertexLoop sz cs vs (Suc j) ?ps"
      using True by (subst vertexLoop.simps) (simp add: Let_def)
    have k: "k < length ?ps"
      using "1.prems" by simp
    have ih: "vertexLoop sz cs vs (Suc j) ?ps ! k =
           (if 3 * Suc j \<le> k \<and> k mod 3 = 0 then fst (cornerXY sz cs vs (k div 3))
            else if 3 * Suc j \<le> k \<and> k mod 3 = 1 then snd (cornerXY sz cs vs (k div 3))
            else ?ps ! k)"
      using "1.IH" [OF True refl k] .
    have upd: "?ps ! k = (if k = j * 3 + 1 then snd ?xy else if k = j * 3 then fst ?xy else ps ! k)"
      using "1.prems" by (simp add: nth_list_update)
    have d: "Suc (3 * j) div 3 = j" "Suc (3 * j) mod 3 = 1"
      "Suc (Suc (3 * j)) mod 3 = 2" "(3 * j + 2) mod 3 = 2" "(3 * j + 1) mod 3 = 1"
      "(3 * j + 1) div 3 = j"
      by presburger+
    consider "k < 3 * j" | "k = 3 * j" | "k = 3 * j + 1" | "k = 3 * j + 2" | "3 * Suc j \<le> k"
      by atomize_elim arith
    then show ?thesis
    proof cases
      case 1
      then show ?thesis unfolding step ih upd by auto
    next
      case 2
      then show ?thesis unfolding step ih upd by simp
    next
      case 3
      then show ?thesis unfolding step ih upd by (simp add: d)
    next
      case 4
      then show ?thesis unfolding step ih upd by (simp add: d)
    next
      case 5
      then show ?thesis unfolding step ih upd by auto
    qed
  next
    case False
    then have "length ps \<le> 3 * j"
      by linarith
    with "1.prems" False show ?thesis
      by (subst vertexLoop.simps) simp
  qed
qed

lemma updateBufferGeometryFrom_eq:
  "updateBufferGeometryFrom innerHeight pm i =
     Inr (pm\<lparr>pixelGroups := take i (pixelGroups pm)
            @ map (\<lambda>pg. pg\<lparr>position := vertexLoop (groupSize innerHeight pm pg) (center pg)
                                         (vertexIndex pg) 0 (position pg),
                            position_needsUpdate := True\<rparr>)
                  (drop i (pixelGroups pm))\<rparr>)"
proof (induction innerHeight pm i rule: updateBufferGeometryFrom.induct)
  case (1 innerHeight pm i)
  show ?case
  proof (cases "i < length (pixelGroups pm)")
    case True
    let ?g = "pixelGroups pm ! i"
    let ?pg = "?g\<lparr>position := vertexLoop (groupSize innerHeight pm ?g) (center ?g)
                                  (vertexIndex ?g) 0 (position ?g),
                     position_needsUpdate := True\<rparr>"
    let ?pm = "pm\<lparr>pixelGroups := (pixelGroups pm)[i := ?pg]\<rparr>"
    have step: "updateBufferGeometryFrom innerHeight pm i
                  = updateBufferGeometryFrom innerHeight ?pm (Suc i)"
      using True by (subst updateBufferGeometryFrom.simps) (simp add: getSize_eq Let_def)
    have ih: "updateBufferGeometryFrom innerHeight ?pm (Suc i) =
       Inr (?pm\<lparr>pixelGroups := take (Suc i) (pixelGroups ?pm)
            @ map (\<lambda>pg. pg\<lparr>position := vertexLoop (groupSize innerHeight ?pm pg) (center pg)
                                         (vertexIndex pg) 0 (position pg),
                            position_needsUpdate := True\<rparr>)
                  (drop (Suc i) (pixelGroups ?pm))\<rparr>)"
      using "1.IH" [OF True getSize_eq [OF True] refl refl] by simp
    show ?thesis
      using True unfolding step ih
      by (simp add: take_Suc_update map_drop_step [of i "pixelGroups pm"])
  next
    case False
    then show ?thesis
      by (subst updateBufferGeometryFrom.simps) simp
  qed
qed

lemma updateBufferGeometry_eq:
  "updateBufferGeometry innerHeight pm =
     Inr (pm\<lparr>pixelGroups :=
            map (\<lambda>pg. pg\<lparr>position := vertexLoop (groupSize innerHeight pm pg) (center pg)
                                         (vertexIndex pg) 0 (position pg),
                            position_needsUpdate := True\<rparr>)
                (pixelGroups pm)\<rparr>)"
  by (simp add: updateBufferGeometry_def updateBufferGeometryFrom_eq)

lemma getSize_exampleScene: "getSize 128 (exampleScene zoom) 0 = Inr (min 10 (2 * zoom))"
  by (simp add: getSize_def exampleScene_def exampleManager_def exampleGroup_def
      MAX_PIXEL_SIZE_PX_def PIXEL_SIZE_def tan_45)

lemma updatePixelSize_always_marks:
  assumes "i < length (pixelGroups pm)"
  shows "\<exists>pm'. updatePixelSize innerHeight pm = Inr pm'
           \<and> getSize innerHeight pm i = Inr (size_value (pixelGroups pm' ! i))
           \<and> size_needsUpdate (pixelGroups pm' ! i)"
  using assms by (simp add: updatePixelSize_eq getSize_eq)

text \<open>
  C1 does not hold of the code. \<open>updatePixelSize\<close> compares the computed size with the
  uniform object \<open>material.uniforms.size\<close>, not with its \<open>value\<close>; a number and an object
  are never strictly equal, so every call stores the size and sets \<open>needsUpdate\<close>. In the
  scene below the uniform already holds 10, the computed size is 10, and the call still
  marks the uniform.
\<close>

theorem updatePixelSize_marks_equal_size:
  "size_value (pixelGroups (exampleScene 30) ! 0) = 10
   \<and> size_needsUpdate (pixelGroups (exampleScene 30) ! 0) = False
   \<and> getSize 128 (exampleScene 30) 0 = Inr 10
   \<and> updatePixelSize 128 (exampleScene 30)
       = Inr ((exampleScene 30)\<lparr>pixelGroups :=
                [exampleGroup\<lparr>size_value := 10, size_needsUpdate := True\<rparr>]\<rparr>)"
proof -
  have "groupSize 128 (exampleScene 30) exampleGroup = 10"
    using getSize_exampleScene [of 30] getSize_eq [of 0 "exampleScene 30" 128]
    by (simp add: exampleScene_def)
  then show ?thesis
    using getSize_exampleScene [of 30]
    by (simp add: updatePixelSize_eq) (simp add: exampleScene_def exampleGroup_def)
qed

text \<open>
  C4. \<open>updateBufferGeometry\<close> returns, and for every mesh and every vertex \<open>j\<close> of its
  buffers the new x and y of the vertex are the anchor's x and y plus or minus half the
  size \<open>s\<close> that \<open>getSize\<close> gives for the mesh, by the corner tag: 0 gives
  \<open>(x - s/2, y + s/2)\<close>, 1 gives \<open>(x + s/2, y + s/2)\<close>, 2 gives \<open>(x - s/2, y - s/2)\<close>,
  3 gives \<open>(x + s/2, y - s/2)\<close>. On numbers \<open>f32_minus (Num a) r = Num (a - r)\<close> and
  \<open>f32_plus (Num a) r = Num (a + r)\<close>.
\<close>

theorem updateBufferGeometry_corners:
  assumes "i < length (pixelGroups pm)"
    and "getSize innerHeight pm i = Inr s"
    and "pg = pixelGroups pm ! i"
    and "3 * j + 1 < length (position pg)"
    and "3 * j + 1 < length (center pg)"
    and "j < length (vertexIndex pg)"
    and "centerX = center pg ! (3 * j)" and "centerY = center pg ! (3 * j + 1)"
  shows "\<exists>pm'. updateBufferGeometry innerHeight pm = Inr pm'
           \<and> (vertexIndex pg ! j = 0 \<longrightarrow>
                position (pixelGroups pm' ! i) ! (3 * j) = f32_minus centerX (s / 2)
                \<and> position (pixelGroups pm' ! i) ! (3 * j + 1) = f32_plus centerY (s / 2))
           \<and> (vertexIndex pg ! j = 1 \<longrightarrow>
                position (pixelGroups pm' ! i) ! (3 * j) = f32_plus centerX (s / 2)
                \<and> position (pixelGroups pm' ! i) ! (3 * j + 1) = f32_plus centerY (s / 2))
           \<and> (vertexIndex pg ! j = 2 \<longrightarrow>
                position (pixelGroups pm' ! i) ! (3 * j) = f32_minus centerX (s / 2)
                \<and> position (pixelGroups pm' ! i) ! (3 * j + 1) = f32_minus centerY (s / 2))
           \<and> (vertexIndex pg ! j = 3 \<longrightarrow>
                position (pixelGroups pm' ! i) ! (3 * j) = f32_plus centerX (s / 2)
                \<and> position (pixelGroups pm' ! i) ! (3 * j + 1) = f32_minus centerY (s / 2))"
proof -
  let ?ps = "vertexLoop s (center pg) (vertexIndex pg) 0 (position pg)"
  have s: "groupSize innerHeight pm pg = s"
    using assms(1,2,3) by (simp add: getSize_eq)
  have d: "(3 * j) mod 3 = 0" "(3 * j) div 3 = j" "(3 * j + 1) mod 3 = 1" "(3 * j + 1) div 3 = j"
    by presburger+
  have x: "?ps ! (3 * j) = fst (cornerXY s (center pg) (vertexIndex pg) j)"
    using assms(4) by (subst vertexLoop_nth) (simp_all only: d, simp)
  have y: "?ps ! (3 * j + 1) = snd (cornerXY s (center pg) (vertexIndex pg) j)"
    using assms(4) by (subst vertexLoop_nth) (simp_all only: d, simp)
  have c: "readF32 (center pg) (j * 3) = centerX" "readF32 (center pg) (Suc (j * 3)) = centerY"
    using assms(5,7,8) by (simp_all add: readF32_def mult.commute)
  define pm' where "pm' = pm\<lparr>pixelGroups :=
                  map (\<lambda>pg. pg\<lparr>position := vertexLoop (groupSize innerHeight pm pg) (center pg)
                                               (vertexIndex pg) 0 (position pg),
                                  position_needsUpdate := True\<rparr>)
                      (pixelGroups pm)\<rparr>"
  have r: "updateBufferGeometry innerHeight pm = Inr pm'"
    by (simp add: updateBufferGeometry_eq pm'_def)
  have pos: "position (pixelGroups pm' ! i) = ?ps"
    using assms(1,3) s by (simp add: pm'_def)
  have t: "cornerXY s (center pg) (vertexIndex pg) j =
             (if vertexIndex pg ! j = 0 then (f32_minus centerX (s / 2), f32_plus centerY (s / 2))
              else if vertexIndex pg ! j = 1 then (f32_plus centerX (s / 2), f32_plus centerY (s / 2))
              else if vertexIndex pg ! j = 2 then (f32_minus centerX (s / 2), f32_minus centerY (s / 2))
              else if vertexIndex pg ! j = 3 then (f32_plus centerX (s / 2), f32_minus centerY (s / 2))
              else (NaN, NaN))"
    using assms(6) by (simp add: cornerXY_def c Let_def)
  have main: "(vertexIndex pg ! j = 0 \<longrightarrow>
                position (pixelGroups pm' ! i) ! (3 * j) = f32_minus centerX (s / 2)
                \<and> position (pixelGroups pm' ! i) ! (3 * j + 1) = f32_plus centerY (s / 2))
           \<and> (vertexIndex pg ! j = 1 \<longrightarrow>
                position (pixelGroups pm' ! i) ! (3 * j) = f32_plus centerX (s / 2)
                \<and> position (pixelGroups pm' ! i) ! (3 * j + 1) = f32_plus centerY (s / 2))
           \<and> (vertexIndex pg ! j = 2 \<longrightarrow>
                position (pixelGroups pm' ! i) ! (3 * j) = f32_minus centerX (s / 2)
                \<and> position (pixelGroups pm' ! i) ! (3 * j + 1) = f32_minus centerY (s / 2))
           \<and> (vertexIndex pg ! j = 3 \<longrightarrow>
                position (pixelGroups pm' ! i) ! (3 * j) = f32_plus centerX (s / 2)
                \<and> position (pixelGroups pm' ! i) ! (3 * j + 1) = f32_minus centerY (s / 2))"
    unfolding pos x y t by simp
  show ?thesis
    by (rule exI [of _ pm']) (intro main r conjI)
qed

theorem updateBufferGeometry_corners_witness:
  "\<exists>pm'. updateBufferGeometry 128 (exampleScene 3) = Inr pm'
         \<and> position (pixelGroups pm' ! 0) ! 0 = Num 2
         \<and> position (pixelGroups pm' ! 0) ! 1 = Num 10"
proof -
  have i: "0 < length (pixelGroups (exampleScene 3))"
    by (simp add: exampleScene_def)
  have g: "exampleGroup = pixelGroups (exampleScene 3) ! 0"
    by (simp add: exampleScene_def)
  have s: "getSize 128 (exampleScene 3) 0 = Inr 6"
    using getSize_exampleScene [of 3] by simp
  have b: "3 * 0 + 1 < length (position exampleGroup)" "3 * 0 + 1 < length (center exampleGroup)"
    "0 < length (vertexIndex exampleGroup)"
    "Num 5 = center exampleGroup ! (3 * 0)" "Num 7 = center exampleGroup ! (3 * 0 + 1)"
    by (simp_all add: exampleGroup_def)
  have tag: "vertexIndex exampleGroup ! 0 = 0"
    by (simp add: exampleGroup_def)
  from updateBufferGeometry_corners [OF i s g b]
  obtain pm' where r: "updateBufferGeometry 128 (exampleScene 3) = Inr pm'"
    and c: "vertexIndex exampleGroup ! 0 = 0 \<longrightarrow>
              position (pixelGroups pm' ! 0) ! (3 * 0) = f32_minus (Num 5) (6 / 2)
              \<and> position (pixelGroups pm' ! 0) ! (3 * 0 + 1) = f32_plus (Num 7) (6 / 2)"
    by (elim exE conjE)
  from c tag have "position (pixelGroups pm' ! 0) ! 0 = Num 2"
    "position (pixelGroups pm' ! 0) ! 1 = Num 10"
    by simp_all
  with r show ?thesis
    by (intro exI [of _ pm'] conjI)
qed

text \<open>
  C10. \<open>updateBufferGeometry\<close> returns with the same meshes in the same order; in every
  mesh the centre buffer and the corner-index buffer are unchanged, the position buffer
  keeps its length, and the z component of every vertex position is unchanged.
\<close>

theorem updateBufferGeometry_frame:
  "\<exists>pm'. updateBufferGeometry innerHeight pm = Inr pm'
         \<and> length (pixelGroups pm') = length (pixelGroups pm)
         \<and> (\<forall>i < length (pixelGroups pm).
               center (pixelGroups pm' ! i) = center (pixelGroups pm ! i)
               \<and> vertexIndex (pixelGroups pm' ! i) = vertexIndex (pixelGroups pm ! i)
               \<and> length (position (pixelGroups pm' ! i)) = length (position (pixelGroups pm ! i))
               \<and> (\<forall>j. 3 * j + 2 < length (position (pixelGroups pm ! i)) \<longrightarrow>
                     position (pixelGroups pm' ! i) ! (3 * j + 2)
                       = position (pixelGroups pm ! i) ! (3 * j + 2)))"
proof -
  have "(3 * j + 2) mod 3 = 2" for j :: nat
    by presburger
  then show ?thesis
    by (simp add: updateBufferGeometry_eq vertexLoop_nth)
qed

theorem updateBufferGeometry_frame_witness:
  "\<exists>pm'. updateBufferGeometry 128 (exampleScene 3) = Inr pm'
         \<and> center (pixelGroups pm' ! 0) = [Num 5, Num 7, Num 0]
         \<and> vertexIndex (pixelGroups pm' ! 0) = [0]
         \<and> length (position (pixelGroups pm' ! 0)) = 3
         \<and> position (pixelGroups pm' ! 0) ! 2 = Num 0"
proof -
  from updateBufferGeometry_frame [of 128 "exampleScene 3"]
  obtain pm' where r: "updateBufferGeometry 128 (exampleScene 3) = Inr pm'"
    and f: "\<forall>i < length (pixelGroups (exampleScene 3)).
               center (pixelGroups pm' ! i) = center (pixelGroups (exampleScene 3) ! i)
               \<and> vertexIndex (pixelGroups pm' ! i) = vertexIndex (pixelGroups (exampleScene 3) ! i)
               \<and> length (position (pixelGroups pm' ! i))
                   = length (position (pixelGroups (exampleScene 3) ! i))
               \<and> (\<forall>j. 3 * j + 2 < length (position (pixelGroups (exampleScene 3) ! i)) \<longrightarrow>
                     position (pixelGroups pm' ! i) ! (3 * j + 2)
                       = position (pixelGroups (exampleScene 3) ! i) ! (3 * j + 2))"
    by (elim exE conjE)
  have g: "pixelGroups (exampleScene 3) ! 0 = exampleGroup"
    and i: "0 < length (pixelGroups (exampleScene 3))"
    by (simp_all add: exampleScene_def)
  from f [rule_format, OF i] have
    a: "center (pixelGroups pm' ! 0) = center exampleGroup"
      "vertexIndex (pixelGroups pm' ! 0) = vertexIndex exampleGroup"
      "length (position (pixelGroups pm' ! 0)) = length (position exampleGroup)"
    and z: "\<forall>j. 3 * j + 2 < length (position exampleGroup) \<longrightarrow>
       position (pixelGroups pm' ! 0) ! (3 * j + 2) = position exampleGroup ! (3 * j + 2)"
    unfolding g by simp_all
  from z [rule_format, of 0] have "position (pixelGroups pm' ! 0) ! 2 = Num 0"
    by (simp add: exampleGroup_def numeral_2_eq_2)
  moreover from a have "center (pixelGroups pm' ! 0) = [Num 5, Num 7, Num 0]"
    "vertexIndex (pixelGroups pm' ! 0) = [0]"
    "length (position (pixelGroups pm' ! 0)) = 3"
    by (simp_all add: exampleGroup_def)
  ultimately have "center (pixelGroups pm' ! 0) = [Num 5, Num 7, Num 0]"
    "vertexIndex (pixelGroups pm' ! 0) = [0]"
    "length (position (pixelGroups pm' ! 0)) = 3"
    "position (pixelGroups pm' ! 0) ! 2 = Num 0"
    by simp_all
  with r show ?thesis
    by (intro exI [of _ pm'] conjI)
qed

end
